theory Spec2Isabelle
  imports Complex_Main
begin

text \<open>
  The route handler \<^verbatim>\<open>GET\<close> of \<^verbatim>\<open>src/app/api/long-short_ratio/route.ts\<close> asks six
  exchanges for the long/short ratio of a symbol and returns one record per exchange.
  This theory embeds the handler with its helper \<^verbatim>\<open>parseExchangeData\<close> and its two
  timeframe tables, and proves what its records look like. The dashboard that displays
  the records is not modelled.
\<close>

section \<open>JavaScript values as the route handler sees them\<close>

text \<open>
  The handler computes with JavaScript numbers. They are modelled as exact reals
  extended by the three special values of IEEE 754 and by the negative zero: rounding,
  overflow and underflow of doubles are not part of the model. \<open>Fin 0\<close> is the positive
  zero.
\<close>

datatype jsnum = Fin real | NegZero | PosInf | NegInf | NaN

fun is_inf :: "jsnum \<Rightarrow> bool" where
  "is_inf PosInf = True"
| "is_inf NegInf = True"
| "is_inf _ = False"

fun is_zero :: "jsnum \<Rightarrow> bool" where
  "is_zero (Fin r) = (r = 0)"
| "is_zero NegZero = True"
| "is_zero _ = False"

fun sign_neg :: "jsnum \<Rightarrow> bool" where
  "sign_neg (Fin r) = (r < 0)"
| "sign_neg NegZero = True"
| "sign_neg NegInf = True"
| "sign_neg _ = False"

fun mag :: "jsnum \<Rightarrow> real" where
  "mag (Fin r) = r"
| "mag _ = 0"

definition zero_of :: "bool \<Rightarrow> jsnum" where
  "zero_of negative = (if negative then NegZero else Fin 0)"

definition inf_of :: "bool \<Rightarrow> jsnum" where
  "inf_of negative = (if negative then NegInf else PosInf)"

definition num_add :: "jsnum \<Rightarrow> jsnum \<Rightarrow> jsnum" where
  "num_add a b =
     (if a = NaN \<or> b = NaN then NaN
      else if is_inf a \<and> is_inf b then (if a = b then a else NaN)
      else if is_inf a then a
      else if is_inf b then b
      else if a = NegZero \<and> b = NegZero then NegZero
      else Fin (mag a + mag b))"

fun num_neg :: "jsnum \<Rightarrow> jsnum" where
  "num_neg (Fin r) = (if r = 0 then NegZero else Fin (- r))"
| "num_neg NegZero = Fin 0"
| "num_neg PosInf = NegInf"
| "num_neg NegInf = PosInf"
| "num_neg NaN = NaN"

definition num_sub :: "jsnum \<Rightarrow> jsnum \<Rightarrow> jsnum" where
  "num_sub a b = num_add a (num_neg b)"

definition num_mul :: "jsnum \<Rightarrow> jsnum \<Rightarrow> jsnum" where
  "num_mul a b =
     (if a = NaN \<or> b = NaN then NaN
      else if is_inf a \<or> is_inf b then
        (if is_zero a \<or> is_zero b then NaN else inf_of (sign_neg a \<noteq> sign_neg b))
      else if mag a * mag b = 0 then zero_of (sign_neg a \<noteq> sign_neg b)
      else Fin (mag a * mag b))"

definition num_div :: "jsnum \<Rightarrow> jsnum \<Rightarrow> jsnum" where
  "num_div a b =
     (if a = NaN \<or> b = NaN then NaN
      else if is_inf a then (if is_inf b then NaN else inf_of (sign_neg a \<noteq> sign_neg b))
      else if is_inf b then zero_of (sign_neg a \<noteq> sign_neg b)
      else if is_zero b then (if is_zero a then NaN else inf_of (sign_neg a \<noteq> sign_neg b))
      else if is_zero a then zero_of (sign_neg a \<noteq> sign_neg b)
      else Fin (mag a / mag b))"

text \<open>\<open>a > 0\<close>, the only comparison of the handler.\<close>

fun gt_zero :: "jsnum \<Rightarrow> bool" where
  "gt_zero (Fin r) = (0 < r)"
| "gt_zero PosInf = True"
| "gt_zero _ = False"

text \<open>The real number a finite JavaScript number stands for (both zeros are 0).\<close>

fun the_real :: "jsnum \<Rightarrow> real option" where
  "the_real (Fin r) = Some r"
| "the_real NegZero = Some 0"
| "the_real _ = None"

text \<open>
  A value is what \<^verbatim>\<open>JSON.parse\<close> can produce, \<^verbatim>\<open>undefined\<close>, or one of the members
  every object literal inherits from \<^verbatim>\<open>Object.prototype\<close> (\<open>JNative name\<close>): the two
  timeframe tables are object literals indexed by a string of the request, so a lookup
  also finds the inherited members.
\<close>

datatype jsval =
    JUndefined
  | JNull
  | JBool bool
  | JNum jsnum
  | JStr string
  | JArr "jsval list"
  | JObj "(string \<times> jsval) list"
  | JNative string

fun truthy :: "jsval \<Rightarrow> bool" where
  "truthy JUndefined = False"
| "truthy JNull = False"
| "truthy (JBool b) = b"
| "truthy (JNum n) = (\<not> is_zero n \<and> n \<noteq> NaN)"
| "truthy (JStr s) = (s \<noteq> [])"
| "truthy (JArr xs) = True"
| "truthy (JObj kvs) = True"
| "truthy (JNative k) = True"

fun nullish :: "jsval \<Rightarrow> bool" where
  "nullish JUndefined = True"
| "nullish JNull = True"
| "nullish _ = False"

text \<open>\<^verbatim>\<open>v === 0\<close>\<close>

definition strict_eq_zero :: "jsval \<Rightarrow> bool" where
  "strict_eq_zero v = (v = JNum (Fin 0) \<or> v = JNum NegZero)"

definition object_prototype_keys :: "string list" where
  "object_prototype_keys =
     [''constructor'', ''__defineGetter__'', ''__defineSetter__'', ''hasOwnProperty'',
      ''__lookupGetter__'', ''__lookupSetter__'', ''isPrototypeOf'',
      ''propertyIsEnumerable'', ''toString'', ''valueOf'', ''__proto__'',
      ''toLocaleString'']"

section \<open>The runtime and the upstream services\<close>

text \<open>
  What the handler calls and the repository does not define is a parameter of the model.
  The \<open>runtime\<close> holds the conversions of the language (\<^verbatim>\<open>parseFloat\<close> of a value that is
  not a number, \<^verbatim>\<open>ToNumber\<close> of a value that is not a number, \<^verbatim>\<open>ToString\<close> of a value
  that is not a string, a property of an inherited member, \<^verbatim>\<open>toLowerCase\<close>, the clock in
  milliseconds) and the local part of the CCXT library. The \<open>upstream\<close> holds the answers
  of the exchanges: a request either fails with an error (\<open>Inl\<close> of its \<^verbatim>\<open>message\<close>:
  transport failure, or a response outside 2xx, which axios rejects) or yields a value
  (\<open>Inr\<close>: \<^verbatim>\<open>response.data\<close> for axios, the history for CCXT).
\<close>

datatype request =
    AxiosGet string
  | CcxtFetch string jsval string jsval jsval

record runtime =
  parseFloatOf :: "jsval \<Rightarrow> jsnum"
  toNumberOf :: "jsval \<Rightarrow> jsnum"
  toStringOf :: "jsval \<Rightarrow> string"
  nativeProp :: "string \<Rightarrow> string \<Rightarrow> jsval"
  toLowerCase :: "string \<Rightarrow> string"
  now :: int
  ccxt_has :: "string \<Rightarrow> jsval \<Rightarrow> string + bool"

type_synonym upstream = "request \<Rightarrow> string + jsval"

text \<open>
  \<^verbatim>\<open>parseFloat(v)\<close> parses \<^verbatim>\<open>ToString(v)\<close>: a number comes back as it is, except that the
  negative zero prints as \<^verbatim>\<open>"0"\<close>.
\<close>

definition parseFloat :: "runtime \<Rightarrow> jsval \<Rightarrow> jsnum" where
  "parseFloat rt v =
     (case v of JNum n \<Rightarrow> (if n = NegZero then Fin 0 else n) | _ \<Rightarrow> parseFloatOf rt v)"

definition to_number :: "runtime \<Rightarrow> jsval \<Rightarrow> jsnum" where
  "to_number rt v = (case v of JNum n \<Rightarrow> n | _ \<Rightarrow> toNumberOf rt v)"

definition to_string :: "runtime \<Rightarrow> jsval \<Rightarrow> string" where
  "to_string rt v = (case v of JStr s \<Rightarrow> s | _ \<Rightarrow> toStringOf rt v)"

text \<open>
  \<^verbatim>\<open>a + b\<close>: objects, arrays and inherited members become strings first; with a string
  on either side the operands are concatenated, otherwise they are added as numbers.
\<close>

fun is_object :: "jsval \<Rightarrow> bool" where
  "is_object (JArr xs) = True"
| "is_object (JObj kvs) = True"
| "is_object (JNative k) = True"
| "is_object _ = False"

fun is_string :: "jsval \<Rightarrow> bool" where
  "is_string (JStr s) = True"
| "is_string _ = False"

definition to_primitive :: "runtime \<Rightarrow> jsval \<Rightarrow> jsval" where
  "to_primitive rt v = (if is_object v then JStr (toStringOf rt v) else v)"

definition js_plus :: "runtime \<Rightarrow> jsval \<Rightarrow> jsval \<Rightarrow> jsval" where
  "js_plus rt a b =
     (let pa = to_primitive rt a; pb = to_primitive rt b
      in if is_string pa \<or> is_string pb then JStr (to_string rt pa @ to_string rt pb)
         else JNum (num_add (to_number rt pa) (to_number rt pb)))"

section \<open>Property reads and exceptions\<close>

text \<open>
  An exception is the string of its \<^verbatim>\<open>message\<close>, which is all a \<^verbatim>\<open>catch\<close> block of the
  handler reads. A computation that can throw returns \<open>Inl message\<close>. The wording of the
  \<^verbatim>\<open>TypeError\<close>s is that of V8.
\<close>

definition bindE :: "string + 'a \<Rightarrow> ('a \<Rightarrow> string + 'b) \<Rightarrow> string + 'b" where
  "bindE m f = (case m of Inl e \<Rightarrow> Inl e | Inr v \<Rightarrow> f v)"

definition quoted :: "string \<Rightarrow> string" where
  "quoted s = [CHR 0x27] @ s @ [CHR 0x27]"

definition cannot_read :: "jsval \<Rightarrow> string \<Rightarrow> string" where
  "cannot_read v k =
     ''Cannot read properties of '' @ (if v = JNull then ''null'' else ''undefined'')
       @ '' (reading '' @ quoted k @ '')''"

text \<open>
  \<open>prop_val rt v k\<close> is \<^verbatim>\<open>v[k]\<close> for a \<open>v\<close> that is neither \<^verbatim>\<open>null\<close> nor \<^verbatim>\<open>undefined\<close>.
  An object has its own properties and those of \<^verbatim>\<open>Object.prototype\<close>. Of arrays and
  strings the handler reads \<^verbatim>\<open>length\<close> and the index 0 (a string is a list of bytes here
  and of UTF-16 code units in JavaScript; its length is only ever compared with 0); the
  other names it reads on upstream data are members of no prototype, so the read gives
  \<^verbatim>\<open>undefined\<close> on arrays, strings, numbers and booleans.
\<close>

fun prop_val :: "runtime \<Rightarrow> jsval \<Rightarrow> string \<Rightarrow> jsval" where
  "prop_val rt (JObj kvs) k =
     (case map_of kvs k of
        Some v \<Rightarrow> v
      | None \<Rightarrow> if k \<in> set object_prototype_keys then JNative k else JUndefined)"
| "prop_val rt (JArr xs) k =
     (if k = ''length'' then JNum (Fin (real (length xs)))
      else if k = ''0'' then (case xs of [] \<Rightarrow> JUndefined | x # _ \<Rightarrow> x)
      else JUndefined)"
| "prop_val rt (JStr s) k =
     (if k = ''length'' then JNum (Fin (real (length s)))
      else if k = ''0'' then (case s of [] \<Rightarrow> JUndefined | c # _ \<Rightarrow> JStr [c])
      else JUndefined)"
| "prop_val rt (JNative n) k = nativeProp rt n k"
| "prop_val rt v k = JUndefined"

text \<open>\<^verbatim>\<open>v.k\<close>, which throws on \<^verbatim>\<open>null\<close> and \<^verbatim>\<open>undefined\<close>, and \<^verbatim>\<open>v?.k\<close>, which does not.\<close>

definition get_prop :: "runtime \<Rightarrow> jsval \<Rightarrow> string \<Rightarrow> string + jsval" where
  "get_prop rt v k = (if nullish v then Inl (cannot_read v k) else Inr (prop_val rt v k))"

definition opt_chain :: "runtime \<Rightarrow> jsval \<Rightarrow> string \<Rightarrow> jsval" where
  "opt_chain rt v k = (if nullish v then JUndefined else prop_val rt v k)"

text \<open>
  \<^verbatim>\<open>v.k.slice(-1)[0]\<close>: the last element of an array, the last character of a string,
  \<^verbatim>\<open>undefined\<close> when there is none; anything else has no method \<^verbatim>\<open>slice\<close>.
\<close>

definition slice_last :: "runtime \<Rightarrow> string \<Rightarrow> jsval \<Rightarrow> string + jsval" where
  "slice_last rt path v =
     (case v of
        JUndefined \<Rightarrow> Inl (cannot_read v ''slice'')
      | JNull \<Rightarrow> Inl (cannot_read v ''slice'')
      | JArr xs \<Rightarrow> Inr (if xs = [] then JUndefined else last xs)
      | JStr s \<Rightarrow> Inr (if s = [] then JUndefined else JStr [last s])
      | _ \<Rightarrow> Inl (path @ ''.slice is not a function''))"

text \<open>
  \<^verbatim>\<open>s.replace(p, r)\<close> with a string pattern: the first occurrence only. The two
  replacements of the handler contain no \<^verbatim>\<open>$\<close>.
\<close>

fun replace :: "string \<Rightarrow> string \<Rightarrow> string \<Rightarrow> string" where
  "replace [] p r = (if p = [] then r else [])"
| "replace (c # cs) p r =
     (if take (length p) (c # cs) = p then r @ drop (length p) (c # cs)
      else c # replace cs p r)"

section \<open>The records of the handler\<close>

datatype status = Success | NotSupported | Error

text \<open>
  \<^verbatim>\<open>LongShortRatioData\<close> (lines 6 to 13, with the \<^verbatim>\<open>info\<close> the handler adds at line 218).
  A field is \<open>None\<close> when the object literal does not set it, and \<open>Some v\<close> when it sets
  it to \<open>v\<close>, which may be \<^verbatim>\<open>null\<close> or \<^verbatim>\<open>undefined\<close>.
\<close>

record LongShortRatioData =
  exchange :: string
  status :: status
  longShortRatio :: "jsval option"
  longPercent :: "jsval option"
  shortPercent :: "jsval option"
  message :: "string option"
  info :: "jsval option"

text \<open>\<^verbatim>\<open>{ exchange: exchangeId, status: 'Error', message: m }\<close>\<close>

definition error_record :: "string \<Rightarrow> string \<Rightarrow> LongShortRatioData" where
  "error_record exchangeId m =
     \<lparr>exchange = exchangeId, status = Error, longShortRatio = None, longPercent = None,
      shortPercent = None, message = Some m, info = None\<rparr>"

text \<open>\<^verbatim>\<open>{ exchange: exchangeId, status: 'Not Supported' }\<close> (line 221)\<close>

definition not_supported_record :: "string \<Rightarrow> LongShortRatioData" where
  "not_supported_record exchangeId =
     \<lparr>exchange = exchangeId, status = NotSupported, longShortRatio = None,
      longPercent = None, shortPercent = None, message = None, info = None\<rparr>"

definition timeframe_not_supported :: "string \<Rightarrow> string" where
  "timeframe_not_supported uiTimeframe =
     ''Timeframe '' @ quoted uiTimeframe @ '' not supported.''"

text \<open>
  A \<^verbatim>\<open>try\<close> block is a pair: what it returns or throws, and the requests it has sent.
  \<^verbatim>\<open>catch (e) { return { exchange: exchangeId, status: 'Error', message: e.message } }\<close>
  turns the exception into a record.
\<close>

type_synonym attempt = "(string + LongShortRatioData) \<times> request list"

definition try_catch :: "string \<Rightarrow> attempt \<Rightarrow> LongShortRatioData \<times> request list" where
  "try_catch exchangeId a =
     (case fst a of Inl m \<Rightarrow> error_record exchangeId m | Inr r \<Rightarrow> r, snd a)"

section \<open>parseExchangeData (lines 17 to 50)\<close>

text \<open>\<^verbatim>\<open>ratioData.info.k\<close>\<close>

definition info_prop :: "runtime \<Rightarrow> jsval \<Rightarrow> string \<Rightarrow> string + jsval" where
  "info_prop rt ratioData k =
     bindE (get_prop rt ratioData ''info'') (\<lambda>i. get_prop rt i k)"

text \<open>The condition \<^verbatim>\<open>ratioData.info.k1 && ratioData.info.k2\<close>\<close>

definition info_and :: "runtime \<Rightarrow> jsval \<Rightarrow> string \<Rightarrow> string \<Rightarrow> string + bool" where
  "info_and rt ratioData k1 k2 =
     bindE (info_prop rt ratioData k1) (\<lambda>a.
       if truthy a then bindE (info_prop rt ratioData k2) (\<lambda>b. Inr (truthy b))
       else Inr False)"

text \<open>\<^verbatim>\<open>parseFloat(ratioData.info.k) * 100\<close>\<close>

definition info_percent :: "runtime \<Rightarrow> jsval \<Rightarrow> string \<Rightarrow> string + jsval" where
  "info_percent rt ratioData k =
     bindE (info_prop rt ratioData k) (\<lambda>v. Inr (JNum (num_mul (parseFloat rt v) (Fin 100))))"

definition direct_percent :: "runtime \<Rightarrow> jsval \<Rightarrow> string \<Rightarrow> string \<Rightarrow> string + jsval \<times> jsval" where
  "direct_percent rt ratioData k1 k2 =
     bindE (info_percent rt ratioData k1) (\<lambda>longPercent.
     bindE (info_percent rt ratioData k2) (\<lambda>shortPercent.
       Inr (longPercent, shortPercent)))"

text \<open>Lines 35 to 40: the percentages derived from a ratio that is a number.\<close>

definition ratio_percent :: "jsnum \<Rightarrow> jsval \<times> jsval" where
  "ratio_percent ratio =
     (let short = num_div (Fin 1) (num_add ratio (Fin 1));
          long = num_sub (Fin 1) short
      in (JNum (num_mul long (Fin 100)), JNum (num_mul short (Fin 100))))"

text \<open>The result is the pair \<open>(longPercent, shortPercent)\<close>, each a number or \<^verbatim>\<open>null\<close>.\<close>

definition parseExchangeData :: "runtime \<Rightarrow> string \<Rightarrow> jsval \<Rightarrow> string + jsval \<times> jsval" where
  "parseExchangeData rt exchangeId ratioData =
     bindE (if exchangeId = ''binanceusdm''
            then info_and rt ratioData ''longAccount'' ''shortAccount'' else Inr False) (\<lambda>c1.
     if c1 then direct_percent rt ratioData ''longAccount'' ''shortAccount''
     else
     bindE (if exchangeId = ''bitget''
            then info_and rt ratioData ''longAccountRatio'' ''shortAccountRatio''
            else Inr False) (\<lambda>c2.
     if c2 then direct_percent rt ratioData ''longAccountRatio'' ''shortAccountRatio''
     else
     bindE (if exchangeId = ''okx''
            then bindE (info_prop rt ratioData ''longShortRatio'') (\<lambda>v. Inr (truthy v))
            else Inr False) (\<lambda>c3.
     if c3 then
       bindE (info_prop rt ratioData ''longShortRatio'') (\<lambda>v.
         Inr (ratio_percent (parseFloat rt v)))
     else
     bindE (if exchangeId = ''bybit''
            then info_and rt ratioData ''buyRatio'' ''sellRatio'' else Inr False) (\<lambda>c4.
     if c4 then direct_percent rt ratioData ''buyRatio'' ''sellRatio''
     else Inr (JNull, JNull)))))"

section \<open>The timeframe tables (lines 53 to 64)\<close>

definition timeframeMap :: jsval where
  "timeframeMap = JObj
     [(''binanceusdm'', JObj [(''5m'', JStr ''5m''), (''15m'', JStr ''15m''),
        (''30m'', JStr ''30m''), (''1h'', JStr ''1h''), (''4h'', JStr ''4h''),
        (''1d'', JStr ''1d'')]),
      (''bybit'', JObj [(''5m'', JStr ''5min''), (''15m'', JStr ''15min''),
        (''30m'', JStr ''30min''), (''1h'', JStr ''1h''), (''4h'', JStr ''4h''),
        (''1d'', JStr ''1d'')]),
      (''okx'', JObj [(''5m'', JStr ''5m''), (''15m'', JStr ''15m''),
        (''30m'', JStr ''30m''), (''1h'', JStr ''1H''), (''4h'', JStr ''4H'')]),
      (''bitget'', JObj [(''5m'', JStr ''5m''), (''15m'', JStr ''15m''),
        (''30m'', JStr ''30m''), (''1h'', JStr ''1h''), (''4h'', JStr ''4h'')]),
      (''gateio'', JObj [(''5m'', JStr ''5m''), (''15m'', JStr ''15m''),
        (''30m'', JStr ''30m''), (''1h'', JStr ''1h''), (''4h'', JStr ''4h''),
        (''1d'', JStr ''1d'')])]"

definition krakenTimeframeMap :: jsval where
  "krakenTimeframeMap = JObj
     [(''5m'', JNum (Fin 300)), (''15m'', JNum (Fin 900)), (''30m'', JNum (Fin 1800)),
      (''1h'', JNum (Fin 3600)), (''4h'', JNum (Fin 14400)), (''1d'', JNum (Fin 86400))]"

section \<open>The adapters (the callback of lines 80 to 226)\<close>

subsection \<open>Huobi (lines 82 to 111)\<close>

definition huobi_url :: "string \<Rightarrow> string \<Rightarrow> string" where
  "huobi_url requestedSymbol uiTimeframe =
     (let contractCode = requestedSymbol @ ''-USDT'';
          huobiTimeframe = replace (replace uiTimeframe ''m'' ''min'') ''h'' ''hour''
      in ''https://api.hbdm.com/linear-swap-api/v1/swap_elite_account_ratio?contract_code=''
           @ contractCode @ ''&period='' @ huobiTimeframe)"

text \<open>\<^verbatim>\<open>response.data?.data?.list?.[0]\<close>\<close>

definition huobi_latest :: "runtime \<Rightarrow> jsval \<Rightarrow> jsval" where
  "huobi_latest rt data =
     opt_chain rt (opt_chain rt (opt_chain rt data ''data'') ''list'') ''0''"

text \<open>Lines 89 to 107, from \<^verbatim>\<open>latestData\<close> to the record.\<close>

definition huobi_record :: "runtime \<Rightarrow> string \<Rightarrow> jsval \<Rightarrow> LongShortRatioData" where
  "huobi_record rt exchangeId latestData =
     (if \<not> truthy latestData \<or> prop_val rt latestData ''buy_ratio'' = JUndefined
          \<or> prop_val rt latestData ''sell_ratio'' = JUndefined
      then error_record exchangeId ''Invalid data from Huobi API.''
      else
        let buyRatio = parseFloat rt (prop_val rt latestData ''buy_ratio'');
            sellRatio = parseFloat rt (prop_val rt latestData ''sell_ratio'');
            totalRatio = num_add buyRatio sellRatio;
            longPercent = (if gt_zero totalRatio
                           then num_mul (num_div buyRatio totalRatio) (Fin 100) else Fin 0);
            shortPercent = (if gt_zero totalRatio
                            then num_mul (num_div sellRatio totalRatio) (Fin 100) else Fin 0)
        in \<lparr>exchange = exchangeId, status = Success,
            longShortRatio =
              Some (JNum (if gt_zero sellRatio then num_div buyRatio sellRatio else Fin 0)),
            longPercent = Some (JNum longPercent),
            shortPercent = Some (JNum shortPercent),
            message = None, info = None\<rparr>)"

definition huobi_body ::
  "runtime \<Rightarrow> upstream \<Rightarrow> string \<Rightarrow> string \<Rightarrow> string \<Rightarrow> attempt" where
  "huobi_body rt up exchangeId requestedSymbol uiTimeframe =
     (let url = huobi_url requestedSymbol uiTimeframe
      in (bindE (up (AxiosGet url)) (\<lambda>data.
            Inr (huobi_record rt exchangeId (huobi_latest rt data))),
          [AxiosGet url]))"

subsection \<open>Kraken Futures (lines 114 to 147)\<close>

text \<open>\<^verbatim>\<open>parseFloat(latestData.k.slice(-1)[0])\<close>\<close>

definition kraken_last :: "runtime \<Rightarrow> jsval \<Rightarrow> string \<Rightarrow> string + jsnum" where
  "kraken_last rt latestData k =
     bindE (slice_last rt (''latestData.'' @ k) (prop_val rt latestData k)) (\<lambda>v.
       Inr (parseFloat rt v))"

definition kraken_record :: "runtime \<Rightarrow> string \<Rightarrow> jsval \<Rightarrow> string + LongShortRatioData" where
  "kraken_record rt exchangeId latestData =
     bindE (if \<not> truthy latestData then Inr True
            else bindE (get_prop rt (prop_val rt latestData ''longPercent'') ''length'')
                   (\<lambda>n. Inr (strict_eq_zero n))) (\<lambda>noData.
     if noData then Inr (error_record exchangeId ''No data returned from Kraken API.'')
     else
       bindE (kraken_last rt latestData ''longPercent'') (\<lambda>l.
       bindE (kraken_last rt latestData ''shortPercent'') (\<lambda>s.
       bindE (kraken_last rt latestData ''ratio'') (\<lambda>ratio.
         Inr \<lparr>exchange = exchangeId, status = Success,
              longShortRatio = Some (JNum ratio),
              longPercent = Some (JNum (num_mul l (Fin 100))),
              shortPercent = Some (JNum (num_mul s (Fin 100))),
              message = None, info = None\<rparr>))))"

definition kraken_url :: "runtime \<Rightarrow> string \<Rightarrow> jsval \<Rightarrow> string" where
  "kraken_url rt requestedSymbol interval =
     (let symbol = toLowerCase rt requestedSymbol @ ''usd'';
          since = num_sub (Fin (of_int (now rt div 1000)))
                          (num_mul (to_number rt interval) (Fin 2))
      in ''https://futures.kraken.com/api/charts/v1/analytics/'' @ symbol
           @ ''/long-short-info?since='' @ to_string rt (JNum since)
           @ ''&interval='' @ to_string rt interval)"

text \<open>\<^verbatim>\<open>response.data?.result?.data?.top20Percent\<close>\<close>

definition kraken_latest :: "runtime \<Rightarrow> jsval \<Rightarrow> jsval" where
  "kraken_latest rt data =
     opt_chain rt (opt_chain rt (opt_chain rt data ''result'') ''data'') ''top20Percent''"

definition kraken_body ::
  "runtime \<Rightarrow> upstream \<Rightarrow> string \<Rightarrow> string \<Rightarrow> string \<Rightarrow> attempt" where
  "kraken_body rt up exchangeId requestedSymbol uiTimeframe =
     (let interval = prop_val rt krakenTimeframeMap uiTimeframe
      in if \<not> truthy interval
         then (Inr (error_record exchangeId (timeframe_not_supported uiTimeframe)), [])
         else
           let url = kraken_url rt requestedSymbol interval
           in (bindE (up (AxiosGet url)) (\<lambda>data.
                 kraken_record rt exchangeId (kraken_latest rt data)),
               [AxiosGet url]))"

subsection \<open>Gate.io (lines 150 to 182)\<close>

definition gateio_url :: "runtime \<Rightarrow> string \<Rightarrow> jsval \<Rightarrow> string" where
  "gateio_url rt requestedSymbol interval =
     (let contract = requestedSymbol @ ''_USDT''
      in ''https://api.gateio.ws/api/v4/futures/usdt/contract_stats?contract='' @ contract
           @ ''&interval='' @ to_string rt interval)"

text \<open>Lines 161 to 178, from \<^verbatim>\<open>latestData\<close> to the record.\<close>

definition gateio_record :: "runtime \<Rightarrow> string \<Rightarrow> jsval \<Rightarrow> LongShortRatioData" where
  "gateio_record rt exchangeId latestData =
     (if \<not> truthy latestData \<or> \<not> truthy (prop_val rt latestData ''top_lsr_account'')
      then error_record exchangeId ''No data returned from Gate.io API.''
      else
        let ratio = prop_val rt latestData ''top_lsr_account'';
            short = num_div (Fin 1) (to_number rt (js_plus rt ratio (JNum (Fin 1))));
            long = num_sub (Fin 1) short;
            longPercent = num_mul long (Fin 100);
            shortPercent = num_mul short (Fin 100)
        in \<lparr>exchange = exchangeId, status = Success, longShortRatio = Some ratio,
            longPercent = Some (JNum longPercent),
            shortPercent = Some (JNum shortPercent),
            message = None, info = None\<rparr>)"

definition gateio_body ::
  "runtime \<Rightarrow> upstream \<Rightarrow> string \<Rightarrow> string \<Rightarrow> string \<Rightarrow> attempt" where
  "gateio_body rt up exchangeId requestedSymbol uiTimeframe =
     (let interval = prop_val rt (prop_val rt timeframeMap ''gateio'') uiTimeframe
      in if \<not> truthy interval
         then (Inr (error_record exchangeId (timeframe_not_supported uiTimeframe)), [])
         else
           let url = gateio_url rt requestedSymbol interval
           in (bindE (up (AxiosGet url)) (\<lambda>data.
                 Inr (gateio_record rt exchangeId (opt_chain rt data ''0''))),
               [AxiosGet url]))"

subsection \<open>The exchanges read through CCXT (lines 186 to 225)\<close>

text \<open>
  \<open>ccxt_has rt exchangeId exchangeOptions\<close> is \<^verbatim>\<open>new ccxt[exchangeId](exchangeOptions)\<close>
  followed by the test of \<^verbatim>\<open>exchange.has['fetchLongShortRatioHistory']\<close>: \<open>Inl\<close> when
  one of them throws. \<open>CcxtFetch exchangeId exchangeOptions symbol timeframe params\<close> is
  the call of \<^verbatim>\<open>fetchLongShortRatioHistory\<close> on that instance.
\<close>

definition ccxt_request :: "string \<Rightarrow> string \<Rightarrow> jsval \<Rightarrow> request" where
  "ccxt_request exchangeId requestedSymbol exchangeSpecificTimeframe =
     (let isBybit = (exchangeId = ''bybit'');
          symbol = (if isBybit then requestedSymbol @ ''USDT''
                    else requestedSymbol @ ''/USDT:USDT'');
          exchangeOptions = (if isBybit then JObj [(''defaultType'', JStr ''swap'')]
                             else JObj []);
          params = (if isBybit then JObj [(''type'', JStr ''swap'')] else JObj [])
      in CcxtFetch exchangeId exchangeOptions symbol exchangeSpecificTimeframe params)"

text \<open>Lines 205 to 219, from \<^verbatim>\<open>history\<close> to the record.\<close>

definition ccxt_record :: "runtime \<Rightarrow> string \<Rightarrow> jsval \<Rightarrow> string + LongShortRatioData" where
  "ccxt_record rt exchangeId history =
     bindE (get_prop rt history ''length'') (\<lambda>n.
     if strict_eq_zero n then Inr (error_record exchangeId ''Exchange returned no data.'')
     else
       let latestRatioData = prop_val rt history ''0''
       in bindE (parseExchangeData rt exchangeId latestRatioData) (\<lambda>(l, s).
          bindE (get_prop rt latestRatioData ''longShortRatio'') (\<lambda>ratio.
          bindE (get_prop rt latestRatioData ''info'') (\<lambda>i.
            Inr \<lparr>exchange = exchangeId, status = Success, longShortRatio = Some ratio,
                 longPercent = Some l, shortPercent = Some s,
                 message = None, info = Some i\<rparr>))))"

definition ccxt_body ::
  "runtime \<Rightarrow> upstream \<Rightarrow> string \<Rightarrow> string \<Rightarrow> jsval \<Rightarrow> attempt" where
  "ccxt_body rt up exchangeId requestedSymbol exchangeSpecificTimeframe =
     (let isBybit = (exchangeId = ''bybit'');
          exchangeOptions = (if isBybit then JObj [(''defaultType'', JStr ''swap'')]
                             else JObj [])
      in case ccxt_has rt exchangeId exchangeOptions of
           Inl m \<Rightarrow> (Inl m, [])
         | Inr has \<Rightarrow>
             if has then
               let req = ccxt_request exchangeId requestedSymbol exchangeSpecificTimeframe
               in (bindE (up req) (ccxt_record rt exchangeId), [req])
             else (Inr (not_supported_record exchangeId), []))"

text \<open>
  Lines 186 to 190 stand outside every \<^verbatim>\<open>try\<close>: an exception there would reject the
  promise of the callback, which is the \<open>Inl\<close> of the result.
\<close>

type_synonym outcome = "string + LongShortRatioData \<times> request list"

definition ccxt_adapter ::
  "runtime \<Rightarrow> upstream \<Rightarrow> string \<Rightarrow> string \<Rightarrow> string \<Rightarrow> outcome" where
  "ccxt_adapter rt up exchangeId requestedSymbol uiTimeframe =
     bindE (get_prop rt timeframeMap exchangeId) (\<lambda>exchangeTimeframes.
     bindE (if \<not> truthy exchangeTimeframes then Inr True
            else bindE (get_prop rt exchangeTimeframes uiTimeframe)
                   (\<lambda>v. Inr (\<not> truthy v))) (\<lambda>unsupported.
     if unsupported
     then Inr (error_record exchangeId (timeframe_not_supported uiTimeframe), [])
     else
       bindE (get_prop rt exchangeTimeframes uiTimeframe) (\<lambda>exchangeSpecificTimeframe.
         Inr (try_catch exchangeId
                (ccxt_body rt up exchangeId requestedSymbol exchangeSpecificTimeframe)))))"

subsection \<open>The callback and the handler\<close>

text \<open>
  The callback for one exchange: the record it resolves with and the requests it has
  sent, or the rejection of its promise.
\<close>

definition adapter ::
  "runtime \<Rightarrow> upstream \<Rightarrow> string \<Rightarrow> string \<Rightarrow> string \<Rightarrow> outcome" where
  "adapter rt up exchangeId requestedSymbol uiTimeframe =
     (if exchangeId = ''huobi''
      then Inr (try_catch exchangeId
                  (huobi_body rt up exchangeId requestedSymbol uiTimeframe))
      else if exchangeId = ''krakenfutures''
      then Inr (try_catch exchangeId
                  (kraken_body rt up exchangeId requestedSymbol uiTimeframe))
      else if exchangeId = ''gateio''
      then Inr (try_catch exchangeId
                  (gateio_body rt up exchangeId requestedSymbol uiTimeframe))
      else ccxt_adapter rt up exchangeId requestedSymbol uiTimeframe)"

definition exchanges :: "string list" where
  "exchanges = [''binanceusdm'', ''bybit'', ''okx'', ''bitget'', ''huobi'', ''gateio'']"

text \<open>\<^verbatim>\<open>searchParams.get(name) || fallback\<close>: \<open>None\<close> is the \<^verbatim>\<open>null\<close> of an absent parameter.\<close>

definition or_default :: "string option \<Rightarrow> string \<Rightarrow> string" where
  "or_default p fallback =
     (case p of None \<Rightarrow> fallback | Some s \<Rightarrow> if s = [] then fallback else s)"

text \<open>
  \<^verbatim>\<open>Promise.all\<close> resolves with the values in the order of its argument and rejects when
  one of the promises rejects. No callback shares state with another, so the values do
  not depend on the order in which the requests complete; that order is not part of the
  model, and of several rejections the leftmost is reported.
\<close>

fun promise_all :: "(string + 'a) list \<Rightarrow> string + 'a list" where
  "promise_all [] = Inr []"
| "promise_all (p # ps) =
     bindE p (\<lambda>v. bindE (promise_all ps) (\<lambda>vs. Inr (v # vs)))"

definition run_adapters ::
  "runtime \<Rightarrow> upstream \<Rightarrow> string option \<Rightarrow> string option
     \<Rightarrow> string + (LongShortRatioData \<times> request list) list" where
  "run_adapters rt up symbolParam timeframeParam =
     (let requestedSymbol = or_default symbolParam ''BTC'';
          uiTimeframe = or_default timeframeParam ''5m''
      in promise_all
           (map (\<lambda>exchangeId. adapter rt up exchangeId requestedSymbol uiTimeframe)
              exchanges))"

text \<open>
  The handler, on the two query parameters of the request: \<open>Inr results\<close> is the list
  handed to \<^verbatim>\<open>NextResponse.json\<close>.
\<close>

definition GET ::
  "runtime \<Rightarrow> upstream \<Rightarrow> string option \<Rightarrow> string option
     \<Rightarrow> string + LongShortRatioData list" where
  "GET rt up symbolParam timeframeParam =
     bindE (run_adapters rt up symbolParam timeframeParam) (\<lambda>results.
       Inr (map fst results))"

section \<open>Notions used in the statements\<close>

text \<open>The value a callback resolves with (its promise never rejects, see below).\<close>

definition resolved :: "outcome \<Rightarrow> LongShortRatioData \<times> request list" where
  "resolved out = (case out of Inr v \<Rightarrow> v | Inl m \<Rightarrow> (error_record [] m, []))"

text \<open>A field that is set to a number.\<close>

fun is_number :: "jsval option \<Rightarrow> bool" where
  "is_number (Some (JNum n)) = True"
| "is_number _ = False"

text \<open>
  \<open>longPercent + shortPercent\<close> as a real number, when both fields are numbers and the
  sum is finite; and the tolerance of the specification around 100.
\<close>

definition percent_sum :: "LongShortRatioData \<Rightarrow> real option" where
  "percent_sum r =
     (case (longPercent r, shortPercent r) of
        (Some (JNum l), Some (JNum s)) \<Rightarrow> the_real (num_add l s)
      | _ \<Rightarrow> None)"


text \<open>
  The three shapes of a record of exchange \<open>e\<close>, one per status. Only the callback of a
  CCXT exchange builds a \<open>Success\<close> record from \<open>parseExchangeData\<close>, whose percentages
  may be \<^verbatim>\<open>null\<close>.
\<close>

definition shape :: "string \<Rightarrow> LongShortRatioData \<Rightarrow> bool" where
  "shape e r =
     (case status r of
        Success \<Rightarrow> message r = None
          \<and> (is_number (longPercent r) \<and> is_number (shortPercent r)
               \<or> longPercent r = Some JNull \<and> shortPercent r = Some JNull
                 \<and> e \<noteq> ''huobi'' \<and> e \<noteq> ''krakenfutures'' \<and> e \<noteq> ''gateio'')
      | NotSupported \<Rightarrow> message r = None \<and> longPercent r = None \<and> shortPercent r = None
      | Error \<Rightarrow> message r \<noteq> None \<and> longPercent r = None \<and> shortPercent r = None)"

text \<open>
  The exchange a request is addressed to: the CCXT instance it is called on, or the host
  of the URL. Two upstreams that agree on every request not addressed to \<open>e\<close> differ
  only in what the adapter of \<open>e\<close> sees.
\<close>

definition starts_with :: "string \<Rightarrow> string \<Rightarrow> bool" where
  "starts_with p s = (take (length p) s = p)"

definition addressee :: "request \<Rightarrow> string" where
  "addressee req =
     (case req of
        CcxtFetch exchangeId exchangeOptions symbol timeframe params \<Rightarrow> exchangeId
      | AxiosGet url \<Rightarrow>
          if starts_with ''https://api.hbdm.com/'' url then ''huobi''
          else if starts_with ''https://futures.kraken.com/'' url then ''krakenfutures''
          else if starts_with ''https://api.gateio.ws/'' url then ''gateio''
          else [])"

section \<open>A runtime and upstreams for the examples\<close>

text \<open>
  The examples below run the handler on payloads whose fields are numbers, which the
  model converts by itself: the conversions of \<open>stub_runtime\<close> are placeholders that no
  example consults. Its CCXT knows \<^verbatim>\<open>fetchLongShortRatioHistory\<close> for every exchange.
\<close>

definition stub_runtime :: runtime where
  "stub_runtime =
     \<lparr>parseFloatOf = (\<lambda>v. NaN), toNumberOf = (\<lambda>v. NaN),
      toStringOf = (\<lambda>v. ''[object Object]''), nativeProp = (\<lambda>n k. JUndefined),
      toLowerCase = (\<lambda>s. s), now = 0,
      ccxt_has = (\<lambda>exchangeId exchangeOptions. Inr True)\<rparr>"

text \<open>No exchange can be reached; and one exchange answers \<open>v\<close>, the others cannot be reached.\<close>

definition unreachable :: upstream where
  "unreachable req = Inl ''Network Error''"

definition answers :: "string \<Rightarrow> jsval \<Rightarrow> upstream" where
  "answers exchangeId v req =
     (if addressee req = exchangeId then Inr v else Inl ''Network Error'')"

text \<open>Payloads in the format of Huobi, of Gate.io, and of a CCXT history with one entry.\<close>

definition huobi_payload :: "jsnum \<Rightarrow> jsnum \<Rightarrow> jsval" where
  "huobi_payload buy sell =
     JObj [(''status'', JStr ''ok''),
           (''data'', JObj [(''list'', JArr [JObj [(''buy_ratio'', JNum buy),
                                                   (''sell_ratio'', JNum sell)]])])]"

definition gateio_payload :: "jsnum \<Rightarrow> jsval" where
  "gateio_payload ratio = JArr [JObj [(''top_lsr_account'', JNum ratio)]]"

definition ccxt_history :: "jsval \<Rightarrow> (string \<times> jsval) list \<Rightarrow> jsval" where
  "ccxt_history ratio infoFields =
     JArr [JObj [(''longShortRatio'', ratio), (''info'', JObj infoFields)]]"

text \<open>Gate.io and OKX both report a ratio of 2.5.\<close>

definition ratio_5_2 :: upstream where
  "ratio_5_2 req =
     (if addressee req = ''gateio'' then Inr (gateio_payload (Fin (5 / 2)))
      else if addressee req = ''okx''
      then Inr (ccxt_history (JNum (Fin (5 / 2))) [(''longShortRatio'', JNum (Fin (5 / 2)))])
      else Inl ''Network Error'')"


section \<open>No exception leaves a callback\<close>

lemma bindE_Inr [simp]: "bindE (Inr v) f = f v"
  by (simp add: bindE_def)

lemma bindE_Inl [simp]: "bindE (Inl e) f = Inl e"
  by (simp add: bindE_def)

lemma bindE_eq_Inr: "bindE m f = Inr r \<longleftrightarrow> (\<exists>v. m = Inr v \<and> f v = Inr r)"
  by (cases m) simp_all

lemma truthy_not_nullish: "truthy v \<Longrightarrow> \<not> nullish v"
  by (cases v) simp_all

lemma get_prop_truthy [simp]: "truthy v \<Longrightarrow> get_prop rt v k = Inr (prop_val rt v k)"
  by (simp add: get_prop_def truthy_not_nullish)

lemma get_prop_timeframeMap [simp]:
  "get_prop rt timeframeMap k = Inr (prop_val rt timeframeMap k)"
  by (simp add: get_prop_def timeframeMap_def)

lemma try_catch_Inl [simp]: "try_catch e (Inl m, tr) = (error_record e m, tr)"
  by (simp add: try_catch_def)

lemma try_catch_Inr [simp]: "try_catch e (Inr r, tr) = (r, tr)"
  by (simp add: try_catch_def)

lemma try_catch_cases:
  assumes "try_catch e a = (r, tr)"
  obtains (thrown) m where "fst a = Inl m" "r = error_record e m" "tr = snd a"
    | (returned) "fst a = Inr r" "tr = snd a"
  using assms by (cases "fst a") (auto simp: try_catch_def)

text \<open>
  Lines 186 to 190: the guard \<^verbatim>\<open>!exchangeTimeframes\<close> comes before the read of
  \<^verbatim>\<open>exchangeTimeframes[uiTimeframe]\<close>, so the read never throws.
\<close>

lemma ccxt_adapter_cases:
  "ccxt_adapter rt up e sb tf =
     (if truthy (prop_val rt timeframeMap e)
         \<and> truthy (prop_val rt (prop_val rt timeframeMap e) tf)
      then Inr (try_catch e (ccxt_body rt up e sb (prop_val rt (prop_val rt timeframeMap e) tf)))
      else Inr (error_record e (timeframe_not_supported tf), []))"
  by (auto simp: ccxt_adapter_def)

lemma exchange_error_record [simp]: "exchange (error_record e m) = e"
  by (simp add: error_record_def)

lemma exchange_not_supported_record [simp]: "exchange (not_supported_record e) = e"
  by (simp add: not_supported_record_def)

lemma exchange_huobi_record [simp]: "exchange (huobi_record rt e v) = e"
  by (simp add: huobi_record_def Let_def)

lemma exchange_gateio_record [simp]: "exchange (gateio_record rt e v) = e"
  by (simp add: gateio_record_def Let_def)

lemma exchange_kraken_record: "kraken_record rt e v = Inr r \<Longrightarrow> exchange r = e"
  by (auto simp: kraken_record_def bindE_eq_Inr split: if_splits)

lemma exchange_ccxt_record: "ccxt_record rt e h = Inr r \<Longrightarrow> exchange r = e"
  by (auto simp: ccxt_record_def bindE_eq_Inr Let_def split: if_splits)

lemma exchange_try_catch:
  "(\<And>r. fst a = Inr r \<Longrightarrow> exchange r = e) \<Longrightarrow> exchange (fst (try_catch e a)) = e"
  by (cases "fst a") (simp_all add: try_catch_def)

lemma exchange_huobi_body: "fst (huobi_body rt up e s t) = Inr r \<Longrightarrow> exchange r = e"
  by (auto simp: huobi_body_def Let_def bindE_eq_Inr)

lemma exchange_gateio_body: "fst (gateio_body rt up e s t) = Inr r \<Longrightarrow> exchange r = e"
  by (auto simp: gateio_body_def Let_def bindE_eq_Inr split: if_splits)

lemma exchange_kraken_body: "fst (kraken_body rt up e s t) = Inr r \<Longrightarrow> exchange r = e"
  by (auto simp: kraken_body_def Let_def bindE_eq_Inr split: if_splits dest: exchange_kraken_record)

lemma exchange_ccxt_body: "fst (ccxt_body rt up e s v) = Inr r \<Longrightarrow> exchange r = e"
  by (auto simp: ccxt_body_def Let_def bindE_eq_Inr split: if_splits sum.splits dest: exchange_ccxt_record)

lemma ccxt_adapter_resolves:
  "\<exists>r tr. ccxt_adapter rt up e s t = Inr (r, tr) \<and> exchange r = e"
proof (cases "truthy (prop_val rt timeframeMap e) \<and> truthy (prop_val rt (prop_val rt timeframeMap e) t)")
  case True
  then show ?thesis
    by (simp add: ccxt_adapter_def try_catch_def exchange_try_catch exchange_ccxt_body
          split: sum.splits)
next
  case False
  then show ?thesis
    by (auto simp: ccxt_adapter_def)
qed

lemma adapter_resolves:
  "\<exists>r tr. adapter rt up e s t = Inr (r, tr) \<and> exchange r = e"
  using ccxt_adapter_resolves [of rt up e s t]
  by (auto simp: adapter_def try_catch_def split: sum.splits
        dest: exchange_huobi_body exchange_gateio_body exchange_kraken_body)

lemma promise_all_map:
  "(\<And>x. x \<in> set xs \<Longrightarrow> f x = Inr (g x)) \<Longrightarrow> promise_all (map f xs) = Inr (map g xs)"
  by (induction xs) simp_all

lemma adapter_resolved: "adapter rt up e s t = Inr (resolved (adapter rt up e s t))"
  using adapter_resolves [of rt up e s t] by (auto simp: resolved_def)

lemma run_adapters_eq:
  "run_adapters rt up sp tp =
     Inr (map (\<lambda>e. resolved (adapter rt up e (or_default sp ''BTC'') (or_default tp ''5m'')))
            exchanges)"
  unfolding run_adapters_def Let_def
  by (rule promise_all_map) (rule adapter_resolved)

lemma GET_eq:
  "GET rt up sp tp =
     Inr (map (\<lambda>e. fst (resolved (adapter rt up e (or_default sp ''BTC'') (or_default tp ''5m''))))
            exchanges)"
  by (simp add: GET_def run_adapters_eq comp_def)

lemma exchange_resolved: "exchange (fst (resolved (adapter rt up e s t))) = e"
  using adapter_resolves [of rt up e s t] by (auto simp: resolved_def)

text \<open>The branches of the callback, and what a \<^verbatim>\<open>try\<close> block that sends one request returns.\<close>

lemma adapter_cases:
  assumes "adapter rt up e sb tf = Inr (r, tr)"
  obtains (huobi) "e = ''huobi''" "try_catch e (huobi_body rt up e sb tf) = (r, tr)"
    | (kraken) "e = ''krakenfutures''" "try_catch e (kraken_body rt up e sb tf) = (r, tr)"
    | (gateio) "e = ''gateio''" "try_catch e (gateio_body rt up e sb tf) = (r, tr)"
    | (ccxt) v where "e \<noteq> ''huobi''" "e \<noteq> ''krakenfutures''" "e \<noteq> ''gateio''"
        "v = prop_val rt (prop_val rt timeframeMap e) tf" "truthy v"
        "try_catch e (ccxt_body rt up e sb v) = (r, tr)"
    | (unsupported) "e \<noteq> ''huobi''" "e \<noteq> ''krakenfutures''" "e \<noteq> ''gateio''"
        "\<not> (truthy (prop_val rt timeframeMap e)
            \<and> truthy (prop_val rt (prop_val rt timeframeMap e) tf))"
        "r = error_record e (timeframe_not_supported tf)" "tr = []"
proof -
  let ?tfs = "prop_val rt timeframeMap e"
  consider "e = ''huobi''" | "e = ''krakenfutures''" | "e = ''gateio''"
    | "e \<noteq> ''huobi''" "e \<noteq> ''krakenfutures''" "e \<noteq> ''gateio''"
        "truthy ?tfs \<and> truthy (prop_val rt ?tfs tf)"
    | "e \<noteq> ''huobi''" "e \<noteq> ''krakenfutures''" "e \<noteq> ''gateio''"
        "\<not> (truthy ?tfs \<and> truthy (prop_val rt ?tfs tf))"
    by blast
  then show thesis
  proof cases
    case 1
    with assms huobi show ?thesis by (simp add: adapter_def)
  next
    case 2
    with assms kraken show ?thesis by (simp add: adapter_def)
  next
    case 3
    with assms gateio show ?thesis by (simp add: adapter_def)
  next
    case 4
    with assms have "try_catch e (ccxt_body rt up e sb (prop_val rt ?tfs tf)) = (r, tr)"
      by (simp add: adapter_def ccxt_adapter_cases)
    with 4 ccxt show ?thesis by blast
  next
    case 5
    with assms have "r = error_record e (timeframe_not_supported tf)" "tr = []"
      by (simp_all add: adapter_def ccxt_adapter_cases)
    with 5 unsupported show ?thesis by blast
  qed
qed








section \<open>The shape of the records\<close>

lemma parseExchangeData_shape:
  "parseExchangeData rt e v = Inr (l, s) \<Longrightarrow>
     (\<exists>a b. l = JNum a \<and> s = JNum b) \<or> (l = JNull \<and> s = JNull)"
  by (auto simp: parseExchangeData_def direct_percent_def info_percent_def ratio_percent_def
        bindE_eq_Inr Let_def split: if_splits)

lemma shape_error_record [simp]: "shape e (error_record e' m)"
  by (simp add: shape_def error_record_def)

lemma shape_not_supported_record [simp]: "shape e (not_supported_record e')"
  by (simp add: shape_def not_supported_record_def)

lemma shape_success_numbers [simp]:
  "shape e \<lparr>exchange = e', status = Success, longShortRatio = x,
             longPercent = Some (JNum a), shortPercent = Some (JNum b),
             message = None, info = i\<rparr>"
  by (simp add: shape_def)

lemma shape_huobi_record [simp]: "shape e (huobi_record rt e' v)"
  by (simp add: huobi_record_def Let_def)

lemma shape_gateio_record [simp]: "shape e (gateio_record rt e' v)"
  by (simp add: gateio_record_def Let_def)

lemma shape_kraken_record: "kraken_record rt e' v = Inr r \<Longrightarrow> shape e r"
  by (auto simp: kraken_record_def bindE_eq_Inr split: if_splits)

lemma shape_ccxt_record:
  assumes "ccxt_record rt e h = Inr r" "e \<noteq> ''huobi''" "e \<noteq> ''krakenfutures''" "e \<noteq> ''gateio''"
  shows "shape e r"
proof (cases "strict_eq_zero (prop_val rt h ''length'')")
  case True
  with assms(1) show ?thesis
    by (auto simp: ccxt_record_def bindE_eq_Inr get_prop_def split: if_splits)
next
  case False
  with assms(1) obtain l s ratio i where
    p: "parseExchangeData rt e (prop_val rt h ''0'') = Inr (l, s)" and
    r: "r = \<lparr>exchange = e, status = Success, longShortRatio = Some ratio,
              longPercent = Some l, shortPercent = Some s, message = None, info = Some i\<rparr>"
    by (auto simp: ccxt_record_def bindE_eq_Inr get_prop_def Let_def split: if_splits)
  from parseExchangeData_shape [OF p] r assms(2-) show ?thesis
    by (auto simp: shape_def)
qed

lemma shape_huobi_body: "fst (huobi_body rt up e sb tf) = Inr r \<Longrightarrow> shape e r"
  by (auto simp: huobi_body_def Let_def bindE_eq_Inr)

lemma shape_gateio_body: "fst (gateio_body rt up e sb tf) = Inr r \<Longrightarrow> shape e r"
  by (auto simp: gateio_body_def Let_def bindE_eq_Inr split: if_splits)

lemma shape_kraken_body: "fst (kraken_body rt up e sb tf) = Inr r \<Longrightarrow> shape e r"
  by (auto simp: kraken_body_def Let_def bindE_eq_Inr split: if_splits dest: shape_kraken_record)

lemma shape_ccxt_body:
  "fst (ccxt_body rt up e sb v) = Inr r \<Longrightarrow> e \<noteq> ''huobi'' \<Longrightarrow> e \<noteq> ''krakenfutures'' \<Longrightarrow>
     e \<noteq> ''gateio'' \<Longrightarrow> shape e r"
  by (auto simp: ccxt_body_def Let_def bindE_eq_Inr split: if_splits sum.splits
        dest: shape_ccxt_record)

lemma adapter_shape:
  assumes "adapter rt up e sb tf = Inr (r, tr)"
  shows "shape e r"
  using assms
proof (cases rule: adapter_cases)
  case huobi
  from huobi(2) show ?thesis by (cases rule: try_catch_cases) (auto dest: shape_huobi_body)
next
  case kraken
  from kraken(2) show ?thesis by (cases rule: try_catch_cases) (auto dest: shape_kraken_body)
next
  case gateio
  from gateio(2) show ?thesis by (cases rule: try_catch_cases) (auto dest: shape_gateio_body)
next
  case (ccxt v)
  from ccxt(6) ccxt(1-3) show ?thesis
    by (cases rule: try_catch_cases) (auto dest: shape_ccxt_body)
next
  case unsupported
  then show ?thesis by simp
qed

section \<open>The requests of each callback\<close>

lemma addressee_huobi [simp]: "addressee (AxiosGet (huobi_url sb tf)) = ''huobi''"
  by (simp add: addressee_def huobi_url_def starts_with_def Let_def)

lemma addressee_gateio [simp]: "addressee (AxiosGet (gateio_url rt sb v)) = ''gateio''"
  by (simp add: addressee_def gateio_url_def starts_with_def Let_def)

lemma addressee_kraken [simp]:
  "addressee (AxiosGet (kraken_url rt sb v)) = ''krakenfutures''"
  by (simp add: addressee_def kraken_url_def starts_with_def Let_def)

lemma addressee_ccxt [simp]: "addressee (ccxt_request e sb v) = e"
  by (simp add: addressee_def ccxt_request_def Let_def)

lemma adapter_cong:
  assumes "\<And>req. addressee req = e \<Longrightarrow> up' req = up req"
  shows "adapter rt up' e sb tf = adapter rt up e sb tf"
proof -
  have h: "huobi_body rt up' ''huobi'' sb tf = huobi_body rt up ''huobi'' sb tf"
    if "e = ''huobi''"
    using that assms [of "AxiosGet (huobi_url sb tf)"] by (simp add: huobi_body_def Let_def)
  have k: "kraken_body rt up' ''krakenfutures'' sb tf = kraken_body rt up ''krakenfutures'' sb tf"
    if "e = ''krakenfutures''"
    using that
      assms [of "AxiosGet (kraken_url rt sb (prop_val rt krakenTimeframeMap tf))"]
    by (simp add: kraken_body_def Let_def)
  have g: "gateio_body rt up' ''gateio'' sb tf = gateio_body rt up ''gateio'' sb tf"
    if "e = ''gateio''"
    using that
      assms [of "AxiosGet (gateio_url rt sb (prop_val rt (prop_val rt timeframeMap ''gateio'') tf))"]
    by (simp add: gateio_body_def Let_def)
  have c: "ccxt_body rt up' e sb v = ccxt_body rt up e sb v" for v
    using assms [of "ccxt_request e sb v"] by (auto simp: ccxt_body_def Let_def split: sum.splits)
  show ?thesis
    using h k g by (auto simp: adapter_def ccxt_adapter_def c)
qed

lemma distinct_exchanges: "distinct exchanges"
  by (simp add: exchanges_def)

lemma huobi_adapter_eq:
  "adapter rt up ''huobi'' sb tf =
     Inr (case up (AxiosGet (huobi_url sb tf)) of
            Inl m \<Rightarrow> error_record ''huobi'' m
          | Inr data \<Rightarrow> huobi_record rt ''huobi'' (huobi_latest rt data),
          [AxiosGet (huobi_url sb tf)])"
  by (simp add: adapter_def huobi_body_def try_catch_def Let_def split: sum.splits)



text \<open>\<open>timeframeMap\<close> has no entry for Huobi.\<close>

lemma timeframeMap_no_huobi: "prop_val rt timeframeMap ''huobi'' = JUndefined"
  by (simp add: timeframeMap_def object_prototype_keys_def)

section \<open>Arithmetic of the percentages\<close>

















lemma percent_sum_error [simp]: "percent_sum (error_record e m) = None"
  by (simp add: percent_sum_def error_record_def)

lemma percent_sum_not_supported [simp]: "percent_sum (not_supported_record e) = None"
  by (simp add: percent_sum_def not_supported_record_def)

section \<open>The handler on the examples\<close>

lemma huobi_latest_payload [simp]:
  "huobi_latest rt (huobi_payload b s) = JObj [(''buy_ratio'', JNum b), (''sell_ratio'', JNum s)]"
  by (simp add: huobi_latest_def huobi_payload_def opt_chain_def)

lemma answers_huobi [simp]: "answers ''huobi'' v (AxiosGet (huobi_url sb tf)) = Inr v"
  by (simp add: answers_def)

lemma answers_gateio [simp]: "answers ''gateio'' v (AxiosGet (gateio_url rt sb i)) = Inr v"
  by (simp add: answers_def)

lemma gateio_interval_5m [simp]:
  "prop_val rt (prop_val rt timeframeMap ''gateio'') ''5m'' = JStr ''5m''"
  by (simp add: timeframeMap_def)

lemma okx_timeframe_5m [simp]:
  "prop_val rt (prop_val rt timeframeMap ''okx'') ''5m'' = JStr ''5m''"
  by (simp add: timeframeMap_def)

lemma ratio_5_2_gateio [simp]:
  "ratio_5_2 (AxiosGet (gateio_url rt sb i)) = Inr (gateio_payload (Fin (5 / 2)))"
  by (simp add: ratio_5_2_def)

lemma ratio_5_2_okx [simp]:
  "ratio_5_2 (ccxt_request ''okx'' sb v) =
     Inr (ccxt_history (JNum (Fin (5 / 2))) [(''longShortRatio'', JNum (Fin (5 / 2)))])"
  by (simp add: ratio_5_2_def)

lemma eval_huobi:
  "adapter stub_runtime (answers ''huobi'' (huobi_payload b s)) ''huobi'' ''BTC'' ''5m'' =
     Inr (huobi_record stub_runtime ''huobi''
            (JObj [(''buy_ratio'', JNum b), (''sell_ratio'', JNum s)]),
          [AxiosGet (huobi_url ''BTC'' ''5m'')])"
  by (simp add: huobi_adapter_eq)

lemma huobi_record_300_100:
  "huobi_record stub_runtime ''huobi''
     (JObj [(''buy_ratio'', JNum (Fin 300)), (''sell_ratio'', JNum (Fin 100))]) =
   \<lparr>exchange = ''huobi'', status = Success, longShortRatio = Some (JNum (Fin 3)),
    longPercent = Some (JNum (Fin 75)), shortPercent = Some (JNum (Fin 25)),
    message = None, info = None\<rparr>"
  by (simp add: huobi_record_def parseFloat_def num_add_def num_div_def num_mul_def Let_def)





lemma eval_not_supported:
  "adapter (stub_runtime\<lparr>ccxt_has := (\<lambda>exchangeId exchangeOptions. Inr False)\<rparr>)
     unreachable ''bybit'' ''BTC'' ''5m''
   = Inr (\<lparr>exchange = ''bybit'', status = NotSupported, longShortRatio = None,
            longPercent = None, shortPercent = None, message = None, info = None\<rparr>, [])"
  by (simp add: adapter_def ccxt_adapter_def try_catch_def ccxt_body_def
        not_supported_record_def get_prop_def timeframeMap_def stub_runtime_def Let_def)

lemma eval_huobi_1d:
  "adapter stub_runtime unreachable ''huobi'' ''BTC'' ''1d''
   = Inr (\<lparr>exchange = ''huobi'', status = Error, longShortRatio = None,
            longPercent = None, shortPercent = None, message = Some ''Network Error'',
            info = None\<rparr>,
          [AxiosGet ''https://api.hbdm.com/linear-swap-api/v1/swap_elite_account_ratio?contract_code=BTC-USDT&period=1d''])"
  by (simp add: adapter_def try_catch_def huobi_body_def huobi_url_def error_record_def
        unreachable_def Let_def)

lemma eval_okx_1d:
  "adapter stub_runtime unreachable ''okx'' ''BTC'' ''1d''
   = Inr (\<lparr>exchange = ''okx'', status = Error, longShortRatio = None,
            longPercent = None, shortPercent = None,
            message = Some (''Timeframe '' @ [CHR 0x27] @ ''1d'' @ [CHR 0x27] @ '' not supported.''),
            info = None\<rparr>, [])"
  by (simp add: adapter_def ccxt_adapter_def get_prop_def timeframeMap_def error_record_def
        timeframe_not_supported_def quoted_def object_prototype_keys_def Let_def)

text \<open>
  A timeframe that names a member of \<^verbatim>\<open>Object.prototype\<close> is found by the lookup in a
  table and passes the test of lines 187 and 154.
\<close>

lemma eval_okx_constructor:
  "adapter stub_runtime unreachable ''okx'' ''BTC'' ''constructor''
   = Inr (\<lparr>exchange = ''okx'', status = Error, longShortRatio = None,
            longPercent = None, shortPercent = None, message = Some ''Network Error'',
            info = None\<rparr>,
          [CcxtFetch ''okx'' (JObj []) ''BTC/USDT:USDT'' (JNative ''constructor'') (JObj [])])"
  by (simp add: adapter_def ccxt_adapter_def get_prop_def timeframeMap_def error_record_def
        try_catch_def ccxt_body_def ccxt_request_def stub_runtime_def unreachable_def
        object_prototype_keys_def Let_def)

section \<open>The claims\<close>

text \<open>
  C1. For every request, the handler returns a list with exactly one record per configured
  exchange, six records for the list binanceusdm, bybit, okx, bitget, huobi, gateio, and
  the i-th record is that of the i-th exchange, whichever request completes first.
\<close>

theorem GET_one_record_per_exchange:
  "\<exists>results. GET rt up symbolParam timeframeParam = Inr results
     \<and> length results = 6
     \<and> map exchange results =
         [''binanceusdm'', ''bybit'', ''okx'', ''bitget'', ''huobi'', ''gateio'']"
  by (simp add: GET_eq exchanges_def exchange_resolved)

theorem GET_one_record_per_exchange_offline:
  "\<exists>results. GET stub_runtime unreachable (Some ''ETH'') (Some ''1h'') = Inr results
     \<and> length results = 6
     \<and> map exchange results =
         [''binanceusdm'', ''bybit'', ''okx'', ''bitget'', ''huobi'', ''gateio'']"
  by (rule GET_one_record_per_exchange)














text \<open>
  C7 asks every adapter to check the requested timeframe against its table before any
  request. The callback of Huobi has no table and no check: for \<open>1d\<close> it sends the
  request with \<^verbatim>\<open>period=1d\<close>, where the callbacks of OKX and Bitget return the
  \<open>Error\<close> record without a request.
\<close>

theorem huobi_requests_unchecked_timeframe:
  "prop_val stub_runtime timeframeMap ''huobi'' = JUndefined
   \<and> adapter stub_runtime unreachable ''huobi'' ''BTC'' ''1d''
     = Inr (\<lparr>exchange = ''huobi'', status = Error, longShortRatio = None,
              longPercent = None, shortPercent = None, message = Some ''Network Error'',
              info = None\<rparr>,
            [AxiosGet ''https://api.hbdm.com/linear-swap-api/v1/swap_elite_account_ratio?contract_code=BTC-USDT&period=1d''])"
  by (simp add: timeframeMap_no_huobi eval_huobi_1d)

text \<open>
  C8, as the code has it. Every record with status \<open>Error\<close> carries a message; a record
  with any other status, \<open>NotSupported\<close> included, carries none.
\<close>

theorem error_records_carry_message:
  assumes "adapter rt up e sb tf = Inr (r, tr)"
  shows "(status r = Error \<longrightarrow> (\<exists>m. message r = Some m))
    \<and> (status r \<noteq> Error \<longrightarrow> message r = None)"
  using adapter_shape [OF assms] by (cases "status r") (auto simp: shape_def)

theorem error_message_okx_1d:
  "adapter stub_runtime unreachable ''okx'' ''BTC'' ''1d''
   = Inr (\<lparr>exchange = ''okx'', status = Error, longShortRatio = None,
            longPercent = None, shortPercent = None,
            message = Some (''Timeframe '' @ [CHR 0x27] @ ''1d'' @ [CHR 0x27] @ '' not supported.''),
            info = None\<rparr>, [])
   \<and> (\<exists>m. Some (''Timeframe '' @ [CHR 0x27] @ ''1d'' @ [CHR 0x27] @ '' not supported.'') = Some m)"
  using error_records_carry_message [OF eval_okx_1d] eval_okx_1d by simp

text \<open>
  C8 as stated fails: a \<open>NotSupported\<close> record would carry a message. Line 221 returns
  \<^verbatim>\<open>{ exchange: exchangeId, status: 'Not Supported' }\<close>.
\<close>

theorem not_supported_without_message:
  "adapter (stub_runtime\<lparr>ccxt_has := (\<lambda>exchangeId exchangeOptions. Inr False)\<rparr>)
     unreachable ''bybit'' ''BTC'' ''5m''
   = Inr (\<lparr>exchange = ''bybit'', status = NotSupported, longShortRatio = None,
            longPercent = None, shortPercent = None, message = None, info = None\<rparr>, [])"
  by (rule eval_not_supported)

text \<open>
  C9. Two runs of the same request whose upstreams differ only in what the adapter of one
  exchange sees return the same record for every other exchange. (Time is not part of
  the model: the statement is about the records.)
\<close>

theorem isolation:
  assumes "\<forall>req. addressee req \<noteq> exchanges ! i \<longrightarrow> up' req = up req"
    and "i < length exchanges" and "j < length exchanges" and "j \<noteq> i"
  shows "\<exists>rs rs'. GET rt up symbolParam timeframeParam = Inr rs
           \<and> GET rt up' symbolParam timeframeParam = Inr rs'
           \<and> length rs = length exchanges \<and> length rs' = length exchanges
           \<and> rs' ! j = rs ! j"
proof -
  from assms(2-) have "exchanges ! j \<noteq> exchanges ! i"
    using distinct_exchanges by (simp add: nth_eq_iff_index_eq)
  with assms(1) have "adapter rt up' (exchanges ! j) sb tf = adapter rt up (exchanges ! j) sb tf"
    for sb tf
    by (intro adapter_cong) auto
  with assms(3) show ?thesis
    by (simp add: GET_eq)
qed

text \<open>
  Huobi answers in one run and cannot be reached in the other: its record changes, the
  first record of the list does not.
\<close>

theorem isolation_huobi_outage:
  "\<exists>rs rs'. GET stub_runtime (answers ''huobi'' (huobi_payload (Fin 300) (Fin 100))) None None = Inr rs
     \<and> GET stub_runtime unreachable None None = Inr rs'
     \<and> length rs = length exchanges \<and> length rs' = length exchanges
     \<and> rs' ! 0 = rs ! 0
     \<and> status (rs ! 4) = Success \<and> status (rs' ! 4) = Error"
proof -
  from isolation [where i = 4 and j = 0 and up' = unreachable
      and up = "answers ''huobi'' (huobi_payload (Fin 300) (Fin 100))"
      and rt = stub_runtime and symbolParam = None and timeframeParam = None]
  obtain rs rs' where
    g: "GET stub_runtime (answers ''huobi'' (huobi_payload (Fin 300) (Fin 100))) None None = Inr rs"
       "GET stub_runtime unreachable None None = Inr rs'"
    and l: "length rs = length exchanges" "length rs' = length exchanges"
    and same: "rs' ! 0 = rs ! 0"
    by (auto simp: exchanges_def answers_def unreachable_def)
  have "status (rs ! 4) = Success"
    using g(1) by (auto simp: GET_eq exchanges_def or_default_def resolved_def eval_huobi
        huobi_record_300_100)
  moreover have "status (rs' ! 4) = Error"
    using g(2) eval_huobi_1d
    by (auto simp: GET_eq exchanges_def or_default_def resolved_def huobi_adapter_eq
        unreachable_def error_record_def)
  ultimately show ?thesis using g l same by blast
qed

text \<open>
  C10. A request without the \<open>symbol\<close> parameter is answered as the request with
  \<open>symbol = BTC\<close>, and a request without the \<open>timeframe\<close> parameter as the request with
  \<open>timeframe = 5m\<close>.
\<close>

theorem GET_defaults:
  "GET rt up None timeframeParam = GET rt up (Some ''BTC'') timeframeParam
   \<and> GET rt up symbolParam None = GET rt up symbolParam (Some ''5m'')"
  by (simp add: GET_def run_adapters_def or_default_def)

text \<open>
  Beyond the claims: the callbacks that have a timeframe table (binanceusdm, bybit, okx,
  bitget, gateio) answer a timeframe for which the lookup in their table gives nothing
  with the \<open>Error\<close> record, and send no request.
\<close>

theorem table_adapters_check_first:
  assumes "e \<in> {''binanceusdm'', ''bybit'', ''okx'', ''bitget'', ''gateio''}"
    and "\<not> truthy (prop_val rt (prop_val rt timeframeMap e) tf)"
  shows "adapter rt up e sb tf = Inr (error_record e (timeframe_not_supported tf), [])"
proof (cases "e = ''gateio''")
  case True
  with assms(2) show ?thesis
    by (simp add: adapter_def gateio_body_def)
next
  case False
  with assms show ?thesis
    by (auto simp: adapter_def ccxt_adapter_cases)
qed

text \<open>Bitget has no \<open>1d\<close>.\<close>

theorem bitget_1d_not_requested:
  "adapter stub_runtime unreachable ''bitget'' ''BTC'' ''1d'' =
     Inr (error_record ''bitget'' (timeframe_not_supported ''1d''), [])"
  using table_adapters_check_first [of "''bitget''" stub_runtime "''1d''" unreachable "''BTC''"]
  by (simp add: timeframeMap_def object_prototype_keys_def)

end
